theory Spec2Isabelle
  imports Main
begin

section \<open>Values, errors and the output protocol (common/api.py)\<close>

text \<open>
  A Python \<open>str\<close> is modelled as a \<open>string\<close> whose characters are read as
  code points below 256; every literal of the two source files lies in that range.
  An exception is a value of \<open>error\<close>. \<open>OSError p\<close> stands for any failure of
  \<open>open(p).read()\<close>; \<open>TypeError\<close> is raised by \<open>str.join\<close> on \<open>None\<close>,
  \<open>IndexError\<close> by \<open>choices[0]\<close> on an empty list, \<open>AssertionError\<close> by
  \<open>assert\<close>, and \<open>KeyError k\<close> by a dictionary lookup of the absent key \<open>k\<close>.
\<close>

datatype error = KeyError string | TypeError | IndexError | AssertionError | OSError string

text \<open>
  One \<open>event\<close> is one line that \<open>_dump\<close> prints: the JSON object with the
  \<open>method\<close> discriminator and the keyword arguments of the call.
\<close>

datatype event =
    Push_chat string
  | Apply_diff "string list" "int list list"
  | Terminate_chat
  | Log string

record File =
  path :: string
  fs_path :: string

record Message =
  role :: string
  content :: string

type_synonym msg_dict = "(string \<times> string) list"

record request =
  req_api_key :: string
  req_base_url :: string
  req_model :: string
  req_messages :: "msg_dict list"

text \<open>
  The attributes \<open>load\<close> sets are never assigned again; they form the record
  \<open>ExtensionAPI\<close>. The one attribute that is mutated afterwards, \<open>_blocks\<close>, is kept
  in the threaded \<open>state\<close>, next to what the process has printed (\<open>stdout\<close>), the
  chat-completion requests it has sent (\<open>requests\<close>) and the file system it reads
  (\<open>files\<close>: the text of a path, \<open>None\<close> when it cannot be opened and read).
  A \<open>request\<close> keeps the credentials of the client and the model and messages of the
  call; the other arguments of the call are constants.
\<close>

record ExtensionAPI =
  current_file_content :: string
  selection :: "string option"
  cursor_row :: int
  cursor_column :: int
  api_key :: string
  api_url :: string
  prompt :: string
  terminal_history :: "string option"
  terminal_snapshot :: "string list option"
  repo_path :: string
  current_file :: File
  edit_file :: "File option"
  repo_files :: "File list"
  opened_files :: "File list"
  chat_history :: "Message list"

record state =
  blocks :: "string list"
  stdout :: "event list"
  requests :: "request list"
  files :: "string \<Rightarrow> string option"

type_synonym 'a io = "state \<Rightarrow> (error + 'a) \<times> state"

definition io_return :: "'a \<Rightarrow> 'a io" where
  "io_return x s = (Inr x, s)"

definition io_raise :: "error \<Rightarrow> 'a io" where
  "io_raise e s = (Inl e, s)"

text \<open>Sequencing: an exception of the first statement skips the rest and keeps what
  was printed before it.\<close>

definition io_bind :: "'a io \<Rightarrow> ('a \<Rightarrow> 'b io) \<Rightarrow> 'b io" where
  "io_bind m f s = (case m s of (Inl e, s') \<Rightarrow> (Inl e, s') | (Inr x, s') \<Rightarrow> f x s')"

subsection \<open>Python string primitives\<close>

text \<open>\<open>str.isspace\<close> on one code point below 256.\<close>

definition isspace :: "char \<Rightarrow> bool" where
  "isspace c = ((of_char c :: nat) \<in> set [9, 10, 11, 12, 13, 28, 29, 30, 31, 32, 133, 160])"

definition strip :: "string \<Rightarrow> string" where
  "strip s = rev (dropWhile isspace (rev (dropWhile isspace s)))"

definition startswith :: "string \<Rightarrow> string \<Rightarrow> bool" where
  "startswith s p = (take (length p) s = p)"

fun join :: "string \<Rightarrow> string list \<Rightarrow> string" where
  "join sep [] = []"
| "join sep [x] = x"
| "join sep (x # y # ys) = x @ sep @ join sep (y # ys)"

text \<open>\<open>str(n)\<close> for an integer: decimal digits, a leading minus sign when negative.\<close>

fun str_nat :: "nat \<Rightarrow> string" where
  "str_nat n = (if n < 10 then [''0123456789'' ! n]
                else str_nat (n div 10) @ [''0123456789'' ! (n mod 10)])"

declare str_nat.simps [simp del]

definition str_int :: "int \<Rightarrow> string" where
  "str_int i = (if i < 0 then CHR ''-'' # str_nat (nat (- i)) else str_nat (nat i))"

subsection \<open>The protocol emitter\<close>

definition dump :: "event \<Rightarrow> unit io" where
  "dump ev s = (Inr (), s\<lparr>stdout := stdout s @ [ev]\<rparr>)"

definition push_to_chat :: "string \<Rightarrow> unit io" where
  "push_to_chat c = dump (Push_chat c)"

definition apply_diff :: "string list \<Rightarrow> int list list \<Rightarrow> unit io" where
  "apply_diff patch matches = dump (Apply_diff patch matches)"

definition terminate_chat :: "unit io" where
  "terminate_chat = dump Terminate_chat"

definition log :: "string \<Rightarrow> unit io" where
  "log c = dump (Log c)"

definition TAGS :: "(string \<times> string) list" where
  "TAGS = [(''think'', ''collapse''), (''meta'', ''metadata'')]"

definition start_block :: "string \<Rightarrow> unit io" where
  "start_block block_type =
     (case map_of TAGS block_type of
        None \<Rightarrow> io_raise (KeyError block_type)
      | Some tag \<Rightarrow>
          io_bind (push_to_chat (''<'' @ tag @ ''>''))
            (\<lambda>_ s. (Inr (), s\<lparr>blocks := blocks s @ [tag]\<rparr>)))"

definition end_block :: "unit io" where
  "end_block s =
     (if length (blocks s) > 0
      then push_to_chat (''</'' @ last (blocks s) @ ''>'') (s\<lparr>blocks := butlast (blocks s)\<rparr>)
      else (Inl AssertionError, s))"

definition push_block :: "string \<Rightarrow> string \<Rightarrow> unit io" where
  "push_block block_type c =
     io_bind (start_block block_type) (\<lambda>_. io_bind (push_to_chat c) (\<lambda>_. end_block))"

definition push_meta :: "string \<Rightarrow> unit io" where
  "push_meta c =
     io_bind (start_block ''meta'') (\<lambda>_. io_bind (push_to_chat c) (\<lambda>_. end_block))"

section \<open>The assistant (default.py)\<close>

text \<open>The f-string of \<open>get_system_prompt\<close>, before and after its \<open>{model}\<close> field.\<close>

definition prompt_before_model :: string where
  "prompt_before_model =
      ''\<newline>'' @
      ''You are an intelligent programmer, powered by ''"

definition prompt_after_model :: string where
  "prompt_after_model =
      ''. You are happy to help answer any questions that the user has (usually they will be about coding).\<newline>'' @
      ''\<newline>'' @
      ''1. When the user is asking for edits to their code, please output a simplified version of the code block that highlights the changes necessary and adds comments to indicate where unchanged code has been skipped. For example:\<newline>'' @
      ''\<newline>'' @
      ''```language:path/to/file\<newline>'' @
      ''// ... existing code ...\<newline>'' @
      ''{ edit_1 }\<newline>'' @
      ''// ... existing code ...\<newline>'' @
      ''{ edit_2 }\<newline>'' @
      ''// ... existing code ...\<newline>'' @
      ''```\<newline>'' @
      ''\<newline>'' @
      ''The user can see the entire file, so they prefer to only read the updates to the code. Often this will mean that the start/end of the file will be skipped, but that's okay! Rewrite the entire file only if specifically requested. Always provide a brief explanation of the updates, unless the user specifically requests only the code.\<newline>'' @
      ''\<newline>'' @
      ''These edit codeblocks are also read by a less intelligent language model, colloquially called the apply model, to update the file. To help specify the edit to the apply model, you will be very careful when generating the codeblock to not introduce ambiguity. You will specify all unchanged regions (code and comments) of the file with '' @
      [CHR 0xE2, CHR 0x80, CHR 0x9C] @
      ''// '' @
      [CHR 0xE2, CHR 0x80, CHR 0xA6] @
      '' existing code '' @
      [CHR 0xE2, CHR 0x80, CHR 0xA6] @
      [CHR 0xE2, CHR 0x80, CHR 0x9D] @
      '' comment markers. This will ensure the apply model will not delete existing unchanged code or comments when editing the file. You will not mention the apply model.\<newline>'' @
      ''\<newline>'' @
      ''2. Do not lie or make up facts.\<newline>'' @
      ''\<newline>'' @
      ''3. Format your response in markdown.\<newline>'' @
      ''\<newline>'' @
      ''4. When writing out new code blocks, please specify the language ID after the initial backticks, like so: \<newline>'' @
      ''\<newline>'' @
      ''```python\<newline>'' @
      ''{ code }\<newline>'' @
      ''```\<newline>'' @
      ''\<newline>'' @
      ''5. When writing out code blocks for an existing file, please also specify the file path after the initial backticks and restate the method / class your codeblock belongs to, like so:\<newline>'' @
      ''\<newline>'' @
      ''```language:some/other/file\<newline>'' @
      ''function AIChatHistory() {\<newline>'' @
      ''    ...\<newline>'' @
      ''    { code }\<newline>'' @
      ''    ...\<newline>'' @
      ''}\<newline>'' @
      ''```\<newline>''"

definition get_system_prompt :: "string \<Rightarrow> string" where
  "get_system_prompt model = strip (prompt_before_model @ model @ prompt_after_model)"

definition format_code_block :: "string \<Rightarrow> string" where
  "format_code_block c = ''```\<newline>'' @ c @ ''\<newline>```''"

definition format_section :: "string \<Rightarrow> string \<Rightarrow> string" where
  "format_section title c = ''## '' @ title @ ''\<newline>\<newline>'' @ c"

subsection \<open>\<open>repr\<close> of a list of strings, as an f-string field renders it\<close>

definition hexdigit :: "nat \<Rightarrow> char" where
  "hexdigit n = ''0123456789abcdef'' ! n"

text \<open>\<open>str.isprintable\<close> on one code point below 256: the controls, the no-break
  space (160) and the soft hyphen (173) are not printable.\<close>

definition isprintable :: "char \<Rightarrow> bool" where
  "isprintable c =
     (32 \<le> (of_char c :: nat) \<and> (of_char c :: nat) < 127
      \<or> (161 \<le> (of_char c :: nat) \<and> (of_char c :: nat) \<noteq> 173))"

definition repr_char :: "char \<Rightarrow> char \<Rightarrow> string" where
  "repr_char quote ch =
     (if ch = quote \<or> ch = CHR 0x5C then [CHR 0x5C, ch]
      else if ch = CHR 0x09 then [CHR 0x5C, CHR ''t'']
      else if ch = CHR 0x0A then [CHR 0x5C, CHR ''n'']
      else if ch = CHR 0x0D then [CHR 0x5C, CHR ''r'']
      else if isprintable ch then [ch]
      else [CHR 0x5C, CHR ''x'', hexdigit ((of_char ch :: nat) div 16),
            hexdigit ((of_char ch :: nat) mod 16)])"

definition repr_quote :: "string \<Rightarrow> char" where
  "repr_quote s = (if CHR 0x27 \<in> set s \<and> CHR 0x22 \<notin> set s then CHR 0x22 else CHR 0x27)"

definition repr_str :: "string \<Rightarrow> string" where
  "repr_str s = repr_quote s # concat (map (repr_char (repr_quote s)) s) @ [repr_quote s]"

definition repr_list :: "string list \<Rightarrow> string" where
  "repr_list xs = ''['' @ join '', '' (map repr_str xs) @ '']''"

subsection \<open>Reading files\<close>

definition get_content :: "File \<Rightarrow> string io" where
  "get_content f s =
     (case files s (fs_path f) of
        None \<Rightarrow> (Inl (OSError (fs_path f)), s)
      | Some t \<Rightarrow> (Inr t, s))"

text \<open>A list comprehension whose element expression has effects: left to right, the
  first exception ends it.\<close>

fun map_io :: "('a \<Rightarrow> 'b io) \<Rightarrow> 'a list \<Rightarrow> 'b list io" where
  "map_io f [] s = (Inr [], s)"
| "map_io f (x # xs) s =
     (case f x s of
        (Inl e, s') \<Rightarrow> (Inl e, s')
      | (Inr y, s') \<Rightarrow>
          (case map_io f xs s' of
             (Inl e, s'') \<Rightarrow> (Inl e, s'')
           | (Inr ys, s'') \<Rightarrow> (Inr (y # ys), s'')))"

subsection \<open>\<open>build_context\<close>\<close>

definition opened_file_entry :: "File \<Rightarrow> string io" where
  "opened_file_entry f =
     io_bind (get_content f)
       (\<lambda>c. io_return (''Path: `'' @ path f @ ''`\<newline>\<newline>'' @ format_code_block c))"

definition selection_section :: "string \<Rightarrow> string" where
  "selection_section sel =
     format_section ''Selection''
       (''This is the code snippet that I'm referring to\<newline>\<newline>'' @ format_code_block sel)"

definition current_file_section :: "ExtensionAPI \<Rightarrow> string" where
  "current_file_section api =
     format_section ''Current File''
       (''Here is the file I'm looking at (`'' @ path (current_file api) @ ''`):\<newline>\<newline>''
        @ format_code_block (current_file_content api))"

definition opened_files_metadata :: "string list \<Rightarrow> string" where
  "opened_files_metadata paths =
     ''\<newline><metadata> Opened Files: '' @ repr_list paths @ '' </metadata>\<newline>''"

definition current_file_metadata :: "string \<Rightarrow> string" where
  "current_file_metadata p =
     ''\<newline><metadata> Current File: '' @ p @ '' </metadata>\<newline>''"

definition build_context :: "ExtensionAPI \<Rightarrow> string io" where
  "build_context api =
     io_bind
       (if opened_files api \<noteq> []
        then io_bind (map_io opened_file_entry (opened_files api))
               (\<lambda>entries. io_return
                  [format_section ''Other relevant files'' (join ''\<newline>\<newline>'' entries)])
        else io_return [])
       (\<lambda>context1.
     io_bind (push_to_chat (opened_files_metadata (map path (opened_files api))))
       (\<lambda>_.
     io_bind (push_to_chat (current_file_metadata (path (current_file api))))
       (\<lambda>_.
     io_return
       (join ''\<newline>\<newline>''
          ((context1 @ [current_file_section api])
           @ (case selection api of
                None \<Rightarrow> []
              | Some sel \<Rightarrow>
                  if sel \<noteq> [] \<and> strip sel \<noteq> [] then [selection_section sel] else []))))))"

subsection \<open>\<open>call_llm\<close>: the streaming bridge\<close>

text \<open>
  One chunk of the upstream stream, with the attributes the loop reads. \<open>reasoning\<close>
  is \<open>None\<close> when the delta has no such attribute or it is \<open>None\<close>; the stream
  the call returns is the finite list \<open>upstream\<close> of its chunks.
\<close>

record delta =
  reasoning :: "string option"
  delta_content :: "string option"

record usage_info =
  prompt_tokens :: int

record chunk =
  choices :: "delta list"
  usage :: "usage_info option"

definition create_stream :: "request \<Rightarrow> unit io" where
  "create_stream req s = (Inr (), s\<lparr>requests := requests s @ [req]\<rparr>)"

definition usage_metadata :: "int \<Rightarrow> string \<Rightarrow> string" where
  "usage_metadata n model =
     ''\<newline><metadata> number of tokens used in prompt: '' @ str_int n @ '' model: '' @ model
     @ '' </metadata>\<newline>''"

text \<open>The body of the loop; it returns the new value of \<open>thinking\<close>.\<close>

definition process_chunk :: "string \<Rightarrow> bool \<Rightarrow> chunk \<Rightarrow> bool io" where
  "process_chunk model thinking c =
     (case choices c of
        [] \<Rightarrow> io_raise IndexError
      | d # _ \<Rightarrow>
          io_bind
            (case reasoning d of
               None \<Rightarrow> io_return thinking
             | Some r \<Rightarrow>
                 if r = [] then io_return thinking
                 else io_bind (if \<not> thinking then push_to_chat ''<collapse>'' else io_return ())
                        (\<lambda>_. io_bind (push_to_chat r) (\<lambda>_. io_return True)))
            (\<lambda>thinking1.
          io_bind
            (case delta_content d of
               None \<Rightarrow> io_return thinking1
             | Some t \<Rightarrow>
                 if t = [] then io_return thinking1
                 else io_bind (if thinking1 then push_to_chat ''</collapse>'' else io_return ())
                        (\<lambda>_. io_bind (push_to_chat t) (\<lambda>_. io_return False)))
            (\<lambda>thinking2.
          io_bind
            (case usage c of
               None \<Rightarrow> io_return ()
             | Some u \<Rightarrow> push_to_chat (usage_metadata (prompt_tokens u) model))
            (\<lambda>_. io_return thinking2))))"

fun stream_loop :: "string \<Rightarrow> bool \<Rightarrow> chunk list \<Rightarrow> bool io" where
  "stream_loop model thinking [] s = (Inr thinking, s)"
| "stream_loop model thinking (c # cs) s =
     (case process_chunk model thinking c s of
        (Inl e, s') \<Rightarrow> (Inl e, s')
      | (Inr thinking', s') \<Rightarrow> stream_loop model thinking' cs s')"

definition call_llm :: "ExtensionAPI \<Rightarrow> string \<Rightarrow> msg_dict list \<Rightarrow> chunk list \<Rightarrow> unit io" where
  "call_llm api model messages upstream =
     io_bind
       (create_stream
          \<lparr>req_api_key = api_key api, req_base_url = api_url api, req_model = model,
           req_messages = messages\<rparr>)
       (\<lambda>_. io_bind (stream_loop model False upstream) (\<lambda>_. terminate_chat))"

subsection \<open>\<open>extension\<close>: message construction and the entry point\<close>

definition to_dict :: "Message \<Rightarrow> msg_dict" where
  "to_dict m = [(''role'', role m), (''content'', content m)]"

definition user_message :: "string \<Rightarrow> msg_dict" where
  "user_message c = [(''role'', ''user''), (''content'', c)]"

definition system_message :: "string \<Rightarrow> msg_dict" where
  "system_message model = [(''role'', ''system''), (''content'', get_system_prompt model)]"

definition the_model :: string where
  "the_model = ''anthropic/claude-sonnet-4''"

text \<open>The message list of \<open>extension\<close>, from the context \<open>build_context\<close> returned.
  (The stripped directive the source assigns to \<open>prompt\<close> in the first branch is
  never read again.)\<close>

definition build_messages :: "ExtensionAPI \<Rightarrow> string \<Rightarrow> string \<Rightarrow> msg_dict list" where
  "build_messages api model context =
     (if startswith (strip (prompt api)) ''/''
      then [system_message model] @ map to_dict (chat_history api) @ [user_message (prompt api)]
      else [system_message model, user_message context] @ map to_dict (chat_history api)
           @ [user_message (prompt api)])"

definition extension :: "ExtensionAPI \<Rightarrow> chunk list \<Rightarrow> unit io" where
  "extension api upstream =
     io_bind (build_context api)
       (\<lambda>context.
     io_bind (log (''messages '' @ str_nat (length (build_messages api the_model context))))
       (\<lambda>_.
     io_bind (log (''prompt '' @ prompt api))
       (\<lambda>_.
     case terminal_snapshot api of
       None \<Rightarrow> io_raise TypeError
     | Some snapshot \<Rightarrow>
         io_bind (log (''## Terminal '' @ join ''\<newline>'' snapshot))
           (\<lambda>_. call_llm api the_model (build_messages api the_model context) upstream))))"

subsection \<open>\<open>ExtensionAPI.load\<close>\<close>

text \<open>
  The keyword arguments of \<open>load\<close>: every key is absent (\<open>None\<close>) or bound to a value
  of the type the class declares for it. \<open>selection\<close>, \<open>terminal_history\<close> and
  \<open>terminal_snapshot\<close> may be bound to Python's \<open>None\<close>, the inner option.
\<close>

record message_kwargs =
  kw_role :: "string option"
  kw_content :: "string option"

record payload =
  kw_current_file_content :: "string option"
  kw_selection :: "string option option"
  kw_cursor_row :: "int option"
  kw_cursor_column :: "int option"
  kw_api_key :: "string option"
  kw_api_url :: "string option"
  kw_prompt :: "string option"
  kw_terminal_history :: "string option option"
  kw_terminal_snapshot :: "string list option option"
  kw_repo_path :: "string option"
  kw_current_file :: "string option"
  kw_edit_file :: "string option"
  kw_repo :: "string list option"
  kw_opened_files :: "string list option"
  kw_chat_history :: "message_kwargs list option"

text \<open>\<open>kwargs[k]\<close> and \<open>kwargs.get(k, None)\<close>.\<close>

definition getitem :: "string \<Rightarrow> 'a option \<Rightarrow> 'a io" where
  "getitem k v = (case v of None \<Rightarrow> io_raise (KeyError k) | Some x \<Rightarrow> io_return x)"

definition get_or_none :: "'a option option \<Rightarrow> 'a option" where
  "get_or_none v = (case v of None \<Rightarrow> None | Some x \<Rightarrow> x)"

text \<open>
  \<open>File.__init__\<close> keeps \<open>pathlib.Path(f'{repo_path}/{path}')\<close>, and \<open>open\<close>
  receives the string of that path. On a POSIX system the string is the root (one slash,
  or two when the text starts with exactly two) followed by the components that are
  neither empty nor \<open>.\<close>, joined by single slashes; it is \<open>.\<close> when nothing
  is left.
\<close>

fun split_sep :: "char \<Rightarrow> string \<Rightarrow> string list" where
  "split_sep c [] = [[]]"
| "split_sep c (x # xs) =
     (if x = c then [] # split_sep c xs
      else (case split_sep c xs of [] \<Rightarrow> [[x]] | y # ys \<Rightarrow> (x # y) # ys))"

definition splitroot :: "string \<Rightarrow> string \<times> string" where
  "splitroot p =
     (if take 1 p = ''/''
      then (if take 1 (drop 1 p) = ''/''
            then (if take 1 (drop 2 p) = ''/'' then (''/'', drop 1 p) else (''//'', drop 2 p))
            else (''/'', drop 1 p))
      else ([], p))"

definition path_parts :: "string \<Rightarrow> string list" where
  "path_parts rel = filter (\<lambda>x. x \<noteq> [] \<and> x \<noteq> ''.'') (split_sep CHR ''/'' rel)"

definition posix_str :: "string \<Rightarrow> string" where
  "posix_str p =
     (case splitroot p of
        (root, rel) \<Rightarrow>
          if root = [] \<and> path_parts rel = [] then ''.''
          else root @ join ''/'' (path_parts rel))"

definition new_File :: "string \<Rightarrow> string \<Rightarrow> File" where
  "new_File p repo = \<lparr>path = p, fs_path = posix_str (repo @ ''/'' @ p)\<rparr>"

definition new_Message :: "message_kwargs \<Rightarrow> Message io" where
  "new_Message kw =
     io_bind (getitem ''role'' (kw_role kw))
       (\<lambda>r. io_bind (getitem ''content'' (kw_content kw))
          (\<lambda>c. io_return \<lparr>role = r, content = c\<rparr>))"

definition load :: "payload \<Rightarrow> ExtensionAPI io" where
  "load kw =
     io_bind (getitem ''current_file_content'' (kw_current_file_content kw)) (\<lambda>v_content.
     io_bind (getitem ''selection'' (kw_selection kw)) (\<lambda>v_selection.
     io_bind (getitem ''cursor_row'' (kw_cursor_row kw)) (\<lambda>v_row.
     io_bind (getitem ''cursor_column'' (kw_cursor_column kw)) (\<lambda>v_column.
     io_bind (getitem ''api_key'' (kw_api_key kw)) (\<lambda>v_key.
     io_bind (getitem ''api_url'' (kw_api_url kw)) (\<lambda>v_url.
     io_bind (getitem ''prompt'' (kw_prompt kw)) (\<lambda>v_prompt.
     io_bind (getitem ''repo_path'' (kw_repo_path kw)) (\<lambda>v_repo_path.
     io_bind (getitem ''current_file'' (kw_current_file kw)) (\<lambda>v_current.
     io_bind (getitem ''repo'' (kw_repo kw)) (\<lambda>v_repo.
     io_bind (getitem ''opened_files'' (kw_opened_files kw)) (\<lambda>v_opened.
     io_bind (getitem ''chat_history'' (kw_chat_history kw)) (\<lambda>v_history.
     io_bind (map_io new_Message v_history) (\<lambda>v_messages s.
       (Inr \<lparr>current_file_content = v_content,
             selection = v_selection,
             cursor_row = v_row,
             cursor_column = v_column,
             api_key = v_key,
             api_url = v_url,
             prompt = v_prompt,
             terminal_history = get_or_none (kw_terminal_history kw),
             terminal_snapshot = get_or_none (kw_terminal_snapshot kw),
             repo_path = v_repo_path,
             current_file = new_File v_current v_repo_path,
             edit_file = map_option (\<lambda>p. new_File p v_repo_path) (kw_edit_file kw),
             repo_files = map (\<lambda>p. new_File p v_repo_path) v_repo,
             opened_files = map (\<lambda>p. new_File p v_repo_path) v_opened,
             chat_history = v_messages\<rparr>,
        s\<lparr>blocks := []\<rparr>))))))))))))))"

section \<open>Vocabulary of the properties\<close>

text \<open>An opened file is readable in a state when its path can be opened and read.\<close>

definition readable :: "state \<Rightarrow> File \<Rightarrow> bool" where
  "readable s f = (files s (fs_path f) \<noteq> None)"

text \<open>The selection is present and non-empty after stripping surrounding whitespace.\<close>

definition has_selection :: "ExtensionAPI \<Rightarrow> bool" where
  "has_selection api = (case selection api of None \<Rightarrow> False | Some sel \<Rightarrow> strip sel \<noteq> [])"

text \<open>The sections \<open>build_context\<close> has appended when it reaches the selection test,
  from the rendered entries of the opened files.\<close>

definition sections_before_selection :: "ExtensionAPI \<Rightarrow> string list \<Rightarrow> string list" where
  "sections_before_selection api entries =
     (if opened_files api \<noteq> []
      then [format_section ''Other relevant files'' (join ''\<newline>\<newline>'' entries)]
      else []) @ [current_file_section api]"

text \<open>Chunks that carry one thing only: reasoning text, answer text, or the usage
  statistics (with a delta that has no text).\<close>

definition reasoning_delta :: "string \<Rightarrow> chunk" where
  "reasoning_delta r =
     \<lparr>choices = [\<lparr>reasoning = Some r, delta_content = None\<rparr>], usage = None\<rparr>"

definition content_delta :: "string \<Rightarrow> chunk" where
  "content_delta t =
     \<lparr>choices = [\<lparr>reasoning = None, delta_content = Some t\<rparr>], usage = None\<rparr>"

definition usage_delta :: "int \<Rightarrow> chunk" where
  "usage_delta n =
     \<lparr>choices = [\<lparr>reasoning = None, delta_content = None\<rparr>],
      usage = Some \<lparr>prompt_tokens = n\<rparr>\<rparr>"

text \<open>
  The streaming bridge as the two-state machine of the specification. An \<open>emission\<close>
  is one \<open>push_to_chat\<close> of the loop, marked by its place in the loop: the open tag
  and the close tag of a block, or chat text (reasoning, answer or usage metadata, passed
  on as it came).
  \<open>delta_emissions\<close> is what one chunk emits from a state, \<open>next_thinking\<close>
  the state it leaves, and \<open>bridge_emissions\<close> the emissions of a stream up to its
  end or to the first chunk without a choice. \<open>replay\<close> runs a block stack over
  emissions: an open tag is pushed, a close tag must be the tag on top of the stack, which
  is popped; it is \<open>None\<close> when a close tag finds another tag or none on top.
\<close>

datatype emission = Open_tag string | Close_tag string | Chat string

fun render :: "emission \<Rightarrow> event" where
  "render (Open_tag tag) = Push_chat (''<'' @ tag @ ''>'')"
| "render (Close_tag tag) = Push_chat (''</'' @ tag @ ''>'')"
| "render (Chat c) = Push_chat c"

definition has_reasoning :: "delta \<Rightarrow> bool" where
  "has_reasoning d = (case reasoning d of None \<Rightarrow> False | Some r \<Rightarrow> r \<noteq> [])"

definition has_content :: "delta \<Rightarrow> bool" where
  "has_content d = (case delta_content d of None \<Rightarrow> False | Some t \<Rightarrow> t \<noteq> [])"

definition text_of :: "string option \<Rightarrow> string" where
  "text_of v = (case v of None \<Rightarrow> [] | Some t \<Rightarrow> t)"

definition delta_emissions :: "string \<Rightarrow> bool \<Rightarrow> chunk \<Rightarrow> delta \<Rightarrow> emission list" where
  "delta_emissions model thinking c d =
     (if has_reasoning d
      then (if thinking then [] else [Open_tag ''collapse'']) @ [Chat (text_of (reasoning d))]
      else [])
     @ (if has_content d
        then (if thinking \<or> has_reasoning d then [Close_tag ''collapse''] else [])
             @ [Chat (text_of (delta_content d))]
        else [])
     @ (case usage c of
          None \<Rightarrow> []
        | Some u \<Rightarrow> [Chat (usage_metadata (prompt_tokens u) model)])"

definition next_thinking :: "bool \<Rightarrow> delta \<Rightarrow> bool" where
  "next_thinking thinking d = (if has_content d then False else (thinking \<or> has_reasoning d))"

fun bridge_emissions :: "string \<Rightarrow> bool \<Rightarrow> chunk list \<Rightarrow> emission list" where
  "bridge_emissions model thinking [] = []"
| "bridge_emissions model thinking (c # cs) =
     (case choices c of
        [] \<Rightarrow> []
      | d # _ \<Rightarrow>
          delta_emissions model thinking c d @ bridge_emissions model (next_thinking thinking d) cs)"

fun replay :: "emission list \<Rightarrow> string list \<Rightarrow> string list option" where
  "replay [] stack = Some stack"
| "replay (Open_tag tag # es) stack = replay es (stack @ [tag])"
| "replay (Close_tag tag # es) stack =
     (if stack \<noteq> [] \<and> last stack = tag then replay es (butlast stack) else None)"
| "replay (Chat c # es) stack = replay es stack"

definition all_have_choices :: "chunk list \<Rightarrow> bool" where
  "all_have_choices cs = list_all (\<lambda>c. choices c \<noteq> []) cs"

definition stack_of :: "bool \<Rightarrow> string list" where
  "stack_of thinking = (if thinking then [''collapse''] else [])"

text \<open>The text storage holds for a file, and the entries \<open>build_context\<close> renders
  for the opened files.\<close>

definition file_text :: "state \<Rightarrow> File \<Rightarrow> string" where
  "file_text s f = (case files s (fs_path f) of None \<Rightarrow> [] | Some t \<Rightarrow> t)"

definition entry_texts :: "state \<Rightarrow> File list \<Rightarrow> string list" where
  "entry_texts s fs =
     map (\<lambda>f. ''Path: `'' @ path f @ ''`\<newline>\<newline>'' @ format_code_block (file_text s f)) fs"

definition selection_text :: "ExtensionAPI \<Rightarrow> string" where
  "selection_text api = (case selection api of None \<Rightarrow> [] | Some sel \<Rightarrow> sel)"

text \<open>The request \<open>call_llm\<close> sends.\<close>

definition request_of :: "ExtensionAPI \<Rightarrow> string \<Rightarrow> msg_dict list \<Rightarrow> request" where
  "request_of api model messages =
     \<lparr>req_api_key = api_key api, req_base_url = api_url api, req_model = model,
      req_messages = messages\<rparr>"

text \<open>The required keys that a payload lacks, in the order \<open>load\<close> looks them up.\<close>

definition absent :: "string \<Rightarrow> 'a option \<Rightarrow> string list" where
  "absent k v = (case v of None \<Rightarrow> [k] | Some _ \<Rightarrow> [])"

definition missing_required :: "payload \<Rightarrow> string list" where
  "missing_required kw =
     absent ''current_file_content'' (kw_current_file_content kw)
     @ absent ''selection'' (kw_selection kw)
     @ absent ''cursor_row'' (kw_cursor_row kw)
     @ absent ''cursor_column'' (kw_cursor_column kw)
     @ absent ''api_key'' (kw_api_key kw)
     @ absent ''api_url'' (kw_api_url kw)
     @ absent ''prompt'' (kw_prompt kw)
     @ absent ''repo_path'' (kw_repo_path kw)
     @ absent ''current_file'' (kw_current_file kw)
     @ absent ''repo'' (kw_repo kw)
     @ absent ''opened_files'' (kw_opened_files kw)
     @ absent ''chat_history'' (kw_chat_history kw)"

section \<open>Example inputs\<close>

definition example_api :: ExtensionAPI where
  "example_api =
     \<lparr>current_file_content = ''x = 1'', selection = Some ''x'', cursor_row = 0,
      cursor_column = 0, api_key = ''k'', api_url = ''u'', prompt = ''/go'',
      terminal_history = None, terminal_snapshot = Some [], repo_path = ''/r'',
      current_file = new_File ''a.py'' ''/r'', edit_file = None, repo_files = [],
      opened_files = [new_File ''b.py'' ''/r''], chat_history = []\<rparr>"

definition example_state :: state where
  "example_state =
     \<lparr>blocks = [], stdout = [], requests = [],
      files = map_of [(''/r/a.py'', ''x = 1''), (''/r/b.py'', ''y = 2'')]\<rparr>"

text \<open>A snapshot whose chat history already holds the context of the current file.\<close>

definition history_api :: ExtensionAPI where
  "history_api =
     example_api\<lparr>opened_files := [], selection := None,
       chat_history := [\<lparr>role = ''user'', content = current_file_section example_api\<rparr>]\<rparr>"

text \<open>The example state after the opened file \<open>b.py\<close> has been deleted.\<close>

definition deleted_state :: state where
  "deleted_state = example_state\<lparr>files := map_of [(''/r/a.py'', ''x = 1'')]\<rparr>"

text \<open>A payload without the optional keys; it loads to \<open>example_api\<close> but for the
  terminal snapshot, which is \<open>None\<close>.\<close>

definition example_payload :: payload where
  "example_payload =
     \<lparr>kw_current_file_content = Some ''x = 1'', kw_selection = Some (Some ''x''),
      kw_cursor_row = Some 0, kw_cursor_column = Some 0, kw_api_key = Some ''k'',
      kw_api_url = Some ''u'', kw_prompt = Some ''/go'', kw_terminal_history = None,
      kw_terminal_snapshot = None, kw_repo_path = Some ''/r'',
      kw_current_file = Some ''a.py'', kw_edit_file = None, kw_repo = Some [],
      kw_opened_files = Some [''b.py''], kw_chat_history = Some []\<rparr>"

text \<open>The example state after the current file \<open>a.py\<close> has been deleted.\<close>

definition current_deleted_state :: state where
  "current_deleted_state = example_state\<lparr>files := map_of [(''/r/b.py'', ''y = 2'')]\<rparr>"

section \<open>Basic facts\<close>

lemmas io_defs =
  io_bind_def io_return_def io_raise_def dump_def push_to_chat_def terminate_chat_def
  log_def create_stream_def

lemma new_File_a: "new_File ''a.py'' ''/r'' = \<lparr>path = ''a.py'', fs_path = ''/r/a.py''\<rparr>"
  by (simp add: new_File_def posix_str_def splitroot_def path_parts_def)

lemma new_File_b: "new_File ''b.py'' ''/r'' = \<lparr>path = ''b.py'', fs_path = ''/r/b.py''\<rparr>"
  by (simp add: new_File_def posix_str_def splitroot_def path_parts_def)

lemmas example_files = new_File_a new_File_b

lemma strip_Nil: "strip [] = []"
  by (simp add: strip_def)

subsection \<open>The bridge appends to the output and touches nothing else\<close>

lemma process_chunk_out:
  "\<exists>r evs. \<forall>s. process_chunk model t c s = (r, s\<lparr>stdout := stdout s @ evs\<rparr>)"
proof -
  define s0 :: state where
    "s0 = \<lparr>blocks = [], stdout = [], requests = [], files = (\<lambda>_. None)\<rparr>"
  have "\<forall>s. process_chunk model t c s =
          (fst (process_chunk model t c s0),
           s\<lparr>stdout := stdout s @ stdout (snd (process_chunk model t c s0))\<rparr>)"
    by (simp add: process_chunk_def io_defs s0_def split: list.splits option.splits)
  then show ?thesis by blast
qed

lemma stream_loop_out:
  "\<exists>r evs. \<forall>s. stream_loop model t cs s = (r, s\<lparr>stdout := stdout s @ evs\<rparr>)"
proof (induction cs arbitrary: t)
  case Nil
  have "\<forall>s. stream_loop model t [] s = (Inr t, s\<lparr>stdout := stdout s @ []\<rparr>)"
    by simp
  then show ?case by blast
next
  case (Cons c cs)
  obtain r1 e1 where c1: "\<And>s. process_chunk model t c s = (r1, s\<lparr>stdout := stdout s @ e1\<rparr>)"
    using process_chunk_out by blast
  show ?case
  proof (cases r1)
    case (Inl e)
    then have "\<forall>s. stream_loop model t (c # cs) s = (Inl e, s\<lparr>stdout := stdout s @ e1\<rparr>)"
      by (simp add: c1)
    then show ?thesis by blast
  next
    case (Inr t')
    obtain r2 e2 where c2: "\<And>s. stream_loop model t' cs s = (r2, s\<lparr>stdout := stdout s @ e2\<rparr>)"
      using Cons.IH by blast
    have "\<forall>s. stream_loop model t (c # cs) s = (r2, s\<lparr>stdout := stdout s @ (e1 @ e2)\<rparr>)"
      by (simp add: c1 c2 Inr)
    then show ?thesis by blast
  qed
qed

lemma call_llm_out:
  "\<exists>r evs. \<forall>api messages s. call_llm api model messages upstream s =
      (r, s\<lparr>requests := requests s @ [request_of api model messages],
            stdout := stdout s @ evs\<rparr>)"
proof -
  obtain r e where l: "\<And>s. stream_loop model False upstream s = (r, s\<lparr>stdout := stdout s @ e\<rparr>)"
    using stream_loop_out by blast
  show ?thesis
  proof (cases r)
    case (Inl err)
    then have "\<forall>api messages s. call_llm api model messages upstream s =
      (Inl err, s\<lparr>requests := requests s @ [request_of api model messages],
                  stdout := stdout s @ e\<rparr>)"
      by (simp add: call_llm_def io_defs l request_of_def)
    then show ?thesis by blast
  next
    case (Inr t')
    then have "\<forall>api messages s. call_llm api model messages upstream s =
      (Inr (), s\<lparr>requests := requests s @ [request_of api model messages],
                 stdout := stdout s @ (e @ [Terminate_chat])\<rparr>)"
      by (simp add: call_llm_def io_defs l request_of_def)
    then show ?thesis by blast
  qed
qed

subsection \<open>Reading the opened files\<close>

lemma opened_file_entry_Some:
  "files s (fs_path f) = Some t \<Longrightarrow>
   opened_file_entry f s =
     (Inr (''Path: `'' @ path f @ ''`\<newline>\<newline>'' @ format_code_block t), s)"
  by (simp add: opened_file_entry_def get_content_def io_defs)

lemma opened_file_entry_None:
  "files s (fs_path f) = None \<Longrightarrow> opened_file_entry f s = (Inl (OSError (fs_path f)), s)"
  by (simp add: opened_file_entry_def get_content_def io_defs)

lemma map_io_readable:
  "list_all (readable s) fs \<Longrightarrow> \<exists>es. map_io opened_file_entry fs s = (Inr es, s)"
proof (induction fs)
  case Nil
  then show ?case by simp
next
  case (Cons f fs)
  then obtain es where "map_io opened_file_entry fs s = (Inr es, s)" by auto
  moreover from Cons.prems obtain t where "files s (fs_path f) = Some t"
    by (auto simp: readable_def)
  ultimately show ?case
    by (simp add: opened_file_entry_Some)
qed

lemma map_io_unreadable:
  "\<not> list_all (readable s) fs \<Longrightarrow>
   \<exists>f \<in> set fs. \<not> readable s f \<and> map_io opened_file_entry fs s = (Inl (OSError (fs_path f)), s)"
proof (induction fs)
  case Nil
  then show ?case by simp
next
  case (Cons f fs)
  show ?case
  proof (cases "files s (fs_path f)")
    case None
    then show ?thesis
      by (simp add: opened_file_entry_None readable_def)
  next
    case (Some t)
    then have "readable s f" by (simp add: readable_def)
    with Cons.prems have "\<not> list_all (readable s) fs" by simp
    then obtain g where "g \<in> set fs" "\<not> readable s g"
      "map_io opened_file_entry fs s = (Inl (OSError (fs_path g)), s)"
      using Cons.IH by blast
    with Some show ?thesis
      by (auto simp: opened_file_entry_Some)
  qed
qed

subsection \<open>The two outcomes of \<open>build_context\<close>\<close>

lemma build_context_ok:
  assumes "map_io opened_file_entry (opened_files api) s = (Inr es, s)"
  shows "build_context api s =
     (Inr (join ''\<newline>\<newline>'' (sections_before_selection api es)
           @ (case selection api of
                None \<Rightarrow> []
              | Some sel \<Rightarrow>
                  if strip sel \<noteq> [] then ''\<newline>\<newline>'' @ selection_section sel else [])),
      s\<lparr>stdout := stdout s @ [Push_chat (opened_files_metadata (map path (opened_files api))),
                              Push_chat (current_file_metadata (path (current_file api)))]\<rparr>)"
proof (cases "opened_files api = []")
  case True
  with assms have "es = []" by simp
  with True show ?thesis
    by (auto simp: build_context_def io_defs sections_before_selection_def strip_Nil
        split: option.splits)
next
  case False
  with assms show ?thesis
    by (auto simp: build_context_def io_defs sections_before_selection_def strip_Nil
        split: option.splits)
qed

lemma build_context_fail:
  assumes "map_io opened_file_entry (opened_files api) s = (Inl e, s)"
  shows "build_context api s = (Inl e, s)"
proof -
  from assms have "opened_files api \<noteq> []" by auto
  with assms show ?thesis by (simp add: build_context_def io_defs)
qed

lemma map_io_state: "snd (map_io opened_file_entry fs s) = s"
proof (cases "list_all (readable s) fs")
  case True
  then show ?thesis using map_io_readable by fastforce
next
  case False
  then show ?thesis using map_io_unreadable by fastforce
qed

lemma build_context_cases:
  "(list_all (readable s) (opened_files api) \<and>
      (\<exists>es. map_io opened_file_entry (opened_files api) s = (Inr es, s)))
   \<or> (\<not> list_all (readable s) (opened_files api) \<and>
      (\<exists>f \<in> set (opened_files api). \<not> readable s f \<and>
         build_context api s = (Inl (OSError (fs_path f)), s)))"
proof (cases "list_all (readable s) (opened_files api)")
  case True
  then show ?thesis using map_io_readable by blast
next
  case False
  then show ?thesis using map_io_unreadable build_context_fail by blast
qed

lemma build_context_readable:
  assumes "list_all (readable s) (opened_files api)"
  shows "\<exists>es. build_context api s =
     (Inr (join ''\<newline>\<newline>'' (sections_before_selection api es)
           @ (case selection api of
                None \<Rightarrow> []
              | Some sel \<Rightarrow>
                  if strip sel \<noteq> [] then ''\<newline>\<newline>'' @ selection_section sel else [])),
      s\<lparr>stdout := stdout s @ [Push_chat (opened_files_metadata (map path (opened_files api))),
                              Push_chat (current_file_metadata (path (current_file api)))]\<rparr>)"
  using map_io_readable [OF assms] build_context_ok by blast

lemma example_readable: "list_all (readable example_state) (opened_files example_api)"
  by (simp add: example_api_def example_state_def readable_def example_files)

subsection \<open>Heads of the context and of the system prompt\<close>

lemma join_Cons_Cons: "join sep ((c # x) # xs) = c # join sep (x # xs)"
  by (cases xs) simp_all

lemma strip_Cons:
  "\<not> isspace c \<Longrightarrow> strip (c # xs) = c # rev (dropWhile isspace (rev xs))"
  by (simp add: strip_def dropWhile_append3)

lemma isspace_hash: "\<not> isspace CHR ''#''"
  by (simp add: isspace_def)

lemma strip_space: "isspace c \<Longrightarrow> strip (c # xs) = strip xs"
  by (simp add: strip_def)

lemma get_system_prompt_head:
  "\<exists>rest. get_system_prompt model = CHR ''Y'' # rest"
proof -
  have 1: "\<not> isspace CHR ''Y''" by (simp add: isspace_def)
  have 2: "isspace CHR 0x0A" by (simp add: isspace_def)
  have "\<exists>tl. prompt_before_model @ model @ prompt_after_model = CHR 0x0A # CHR ''Y'' # tl"
    by (simp add: prompt_before_model_def)
  then obtain tl where "prompt_before_model @ model @ prompt_after_model = CHR 0x0A # CHR ''Y'' # tl"
    by blast
  then show ?thesis
    by (simp add: get_system_prompt_def strip_space [OF 2] strip_Cons [OF 1])
qed

lemma context_head:
  assumes "build_context api s = (Inr ctx, s1)"
  shows "\<exists>rest. ctx = CHR ''#'' # rest"
proof -
  from assms build_context_cases [of s api]
  obtain es where "map_io opened_file_entry (opened_files api) s = (Inr es, s)"
    by auto
  from build_context_ok [OF this] assms show ?thesis
    by (auto simp: sections_before_selection_def format_section_def current_file_section_def
        join_Cons_Cons)
qed

lemma build_context_requests:
  assumes "build_context api s = (r, s1)"
  shows "requests s1 = requests s"
proof -
  from build_context_cases [of s api] show ?thesis
  proof
    assume "list_all (readable s) (opened_files api) \<and>
      (\<exists>es. map_io opened_file_entry (opened_files api) s = (Inr es, s))"
    then obtain es where "map_io opened_file_entry (opened_files api) s = (Inr es, s)"
      by blast
    from build_context_ok [OF this] assms show ?thesis by auto
  next
    assume "\<not> list_all (readable s) (opened_files api) \<and>
      (\<exists>f \<in> set (opened_files api). \<not> readable s f \<and>
         build_context api s = (Inl (OSError (fs_path f)), s))"
    with assms show ?thesis by auto
  qed
qed

lemma extension_after_context:
  assumes "build_context api s = (Inr ctx, s1)" and "terminal_snapshot api = Some snap"
  shows "extension api upstream s =
     call_llm api the_model (build_messages api the_model ctx) upstream
       (s1\<lparr>stdout := stdout s1 @
          [Log (''messages '' @ str_nat (length (build_messages api the_model ctx))),
           Log (''prompt '' @ prompt api),
           Log (''## Terminal '' @ join ''\<newline>'' snap)]\<rparr>)"
  using assms by (simp add: extension_def io_defs)

subsection \<open>Dictionary lookups\<close>

lemma getitem_None: "io_bind (getitem k None) f s = (Inl (KeyError k), s)"
  by (simp add: getitem_def io_defs)

lemma getitem_Some: "io_bind (getitem k (Some x)) f s = f x s"
  by (simp add: getitem_def io_defs)

subsection \<open>What \<open>build_context\<close> reads of the file system\<close>

lemma map_io_files:
  "\<forall>f \<in> set fs. files s' (fs_path f) = files s (fs_path f) \<Longrightarrow>
   fst (map_io opened_file_entry fs s') = fst (map_io opened_file_entry fs s)"
proof (induction fs)
  case Nil
  then show ?case by simp
next
  case (Cons f fs)
  then have eq: "files s' (fs_path f) = files s (fs_path f)" by simp
  show ?case
  proof (cases "files s (fs_path f)")
    case None
    with eq show ?thesis by (simp add: opened_file_entry_None)
  next
    case (Some t)
    from Cons have ih: "fst (map_io opened_file_entry fs s') = fst (map_io opened_file_entry fs s)"
      by simp
    obtain r where r: "map_io opened_file_entry fs s = (r, s)"
      using map_io_state [of fs s] by (cases "map_io opened_file_entry fs s") simp
    obtain r' where r': "map_io opened_file_entry fs s' = (r', s')"
      using map_io_state [of fs s'] by (cases "map_io opened_file_entry fs s'") simp
    from ih r r' have "r' = r" by simp
    with Some eq r r' show ?thesis
      by (simp add: opened_file_entry_Some split: sum.splits)
  qed
qed

lemma build_context_files:
  assumes "\<forall>f \<in> set (opened_files api). g (fs_path f) = files s (fs_path f)"
  shows "fst (build_context api (s\<lparr>files := g\<rparr>)) = fst (build_context api s)
         \<and> stdout (snd (build_context api (s\<lparr>files := g\<rparr>))) = stdout (snd (build_context api s))"
proof -
  let ?s' = "s\<lparr>files := g\<rparr>"
  from assms have "fst (map_io opened_file_entry (opened_files api) ?s') =
      fst (map_io opened_file_entry (opened_files api) s)"
    by (intro map_io_files) simp
  moreover obtain r where r: "map_io opened_file_entry (opened_files api) s = (r, s)"
    using map_io_state [of "opened_files api" s]
    by (cases "map_io opened_file_entry (opened_files api) s") simp
  moreover obtain r' where r': "map_io opened_file_entry (opened_files api) ?s' = (r', ?s')"
    using map_io_state [of "opened_files api" ?s']
    by (cases "map_io opened_file_entry (opened_files api) ?s'") simp
  ultimately have "r' = r" by simp
  show ?thesis
  proof (cases r)
    case (Inl e)
    with r r' \<open>r' = r\<close> show ?thesis
      by (simp add: build_context_fail)
  next
    case (Inr es)
    with r r' \<open>r' = r\<close> show ?thesis
      by (simp add: build_context_ok sections_before_selection_def current_file_section_def)
  qed
qed

lemma extension_context_fail:
  "build_context api s = (Inl e, s') \<Longrightarrow> extension api upstream s = (Inl e, s')"
  by (simp add: extension_def io_bind_def)

lemma load_missing_key:
  assumes m: "missing_required kw \<noteq> []"
  shows "load kw s = (Inl (KeyError (hd (missing_required kw))), s)"
proof (cases "kw_current_file_content kw")
  case None then show ?thesis
    by (simp add: load_def missing_required_def absent_def getitem_None)
next
  case a1: (Some v1) show ?thesis
  proof (cases "kw_selection kw")
    case None then show ?thesis
      by (simp add: load_def missing_required_def absent_def getitem_None getitem_Some a1)
  next
    case a2: (Some v2) show ?thesis
    proof (cases "kw_cursor_row kw")
      case None then show ?thesis
        by (simp add: load_def missing_required_def absent_def getitem_None getitem_Some a1 a2)
    next
      case a3: (Some v3) show ?thesis
      proof (cases "kw_cursor_column kw")
        case None then show ?thesis
          by (simp add: load_def missing_required_def absent_def getitem_None getitem_Some a1 a2 a3)
      next
        case a4: (Some v4) show ?thesis
        proof (cases "kw_api_key kw")
          case None then show ?thesis
            by (simp add: load_def missing_required_def absent_def getitem_None getitem_Some a1 a2 a3 a4)
        next
          case a5: (Some v5) show ?thesis
          proof (cases "kw_api_url kw")
            case None then show ?thesis
              by (simp add: load_def missing_required_def absent_def getitem_None getitem_Some a1 a2 a3 a4 a5)
          next
            case a6: (Some v6) show ?thesis
            proof (cases "kw_prompt kw")
              case None then show ?thesis
                by (simp add: load_def missing_required_def absent_def getitem_None getitem_Some a1 a2 a3 a4 a5 a6)
            next
              case a7: (Some v7) show ?thesis
              proof (cases "kw_repo_path kw")
                case None then show ?thesis
                  by (simp add: load_def missing_required_def absent_def getitem_None getitem_Some a1 a2 a3 a4 a5 a6 a7)
              next
                case a8: (Some v8) show ?thesis
                proof (cases "kw_current_file kw")
                  case None then show ?thesis
                    by (simp add: load_def missing_required_def absent_def getitem_None getitem_Some a1 a2 a3 a4 a5 a6 a7 a8)
                next
                  case a9: (Some v9) show ?thesis
                  proof (cases "kw_repo kw")
                    case None then show ?thesis
                      by (simp add: load_def missing_required_def absent_def getitem_None getitem_Some a1 a2 a3 a4 a5 a6 a7 a8 a9)
                  next
                    case a10: (Some v10) show ?thesis
                    proof (cases "kw_opened_files kw")
                      case None then show ?thesis
                        by (simp add: load_def missing_required_def absent_def getitem_None getitem_Some a1 a2 a3 a4 a5 a6 a7 a8 a9 a10)
                    next
                      case a11: (Some v11) show ?thesis
                      proof (cases "kw_chat_history kw")
                        case None then show ?thesis
                          by (simp add: load_def missing_required_def absent_def getitem_None getitem_Some a1 a2 a3 a4 a5 a6 a7 a8 a9 a10 a11)
                      next
                        case (Some v12)
                        with m a1 a2 a3 a4 a5 a6 a7 a8 a9 a10 a11 show ?thesis
                          by (simp add: missing_required_def absent_def)
                      qed
                    qed
                  qed
                qed
              qed
            qed
          qed
        qed
      qed
    qed
  qed
qed

subsection \<open>A successful load\<close>

lemma load_terminal_snapshot:
  assumes "load kw s0 = (Inr api, s)"
  shows "terminal_snapshot api = get_or_none (kw_terminal_snapshot kw)"
proof -
  have "missing_required kw = []"
  proof (rule ccontr)
    assume "missing_required kw \<noteq> []"
    from load_missing_key [OF this, of s0] assms show False by simp
  qed
  then obtain v1 v2 v3 v4 v5 v6 v7 v8 v9 v10 v11 v12 where
    "kw_current_file_content kw = Some v1" "kw_selection kw = Some v2"
    "kw_cursor_row kw = Some v3" "kw_cursor_column kw = Some v4"
    "kw_api_key kw = Some v5" "kw_api_url kw = Some v6" "kw_prompt kw = Some v7"
    "kw_repo_path kw = Some v8" "kw_current_file kw = Some v9" "kw_repo kw = Some v10"
    "kw_opened_files kw = Some v11" "kw_chat_history kw = Some v12"
    by (auto simp: missing_required_def absent_def split: option.splits)
  with assms show ?thesis
    by (auto simp: load_def getitem_Some io_bind_def split: prod.splits sum.splits)
qed

lemma load_example:
  "load example_payload s = (Inr (example_api\<lparr>terminal_snapshot := None\<rparr>), s\<lparr>blocks := []\<rparr>)"
  by (simp add: load_def getitem_def io_defs example_payload_def example_api_def get_or_none_def)

subsection \<open>The bridge prints the emissions of the state machine\<close>

lemma process_chunk_emits:
  "choices c = d # ds \<Longrightarrow>
   process_chunk model t c s =
     (Inr (next_thinking t d), s\<lparr>stdout := stdout s @ map render (delta_emissions model t c d)\<rparr>)"
  by (simp add: process_chunk_def io_defs delta_emissions_def next_thinking_def has_reasoning_def
      has_content_def text_of_def split: option.splits)

lemma process_chunk_no_choice:
  "choices c = [] \<Longrightarrow> process_chunk model t c s = (Inl IndexError, s)"
  by (simp add: process_chunk_def io_defs)

lemma stream_loop_emits:
  "\<exists>b. stream_loop model t cs s =
     ((if all_have_choices cs then Inr b else Inl IndexError),
      s\<lparr>stdout := stdout s @ map render (bridge_emissions model t cs)\<rparr>)"
proof (induction cs arbitrary: t s)
  case Nil
  then show ?case by (simp add: all_have_choices_def)
next
  case (Cons c cs)
  show ?case
  proof (cases "choices c")
    case Nil
    then show ?thesis by (simp add: process_chunk_no_choice all_have_choices_def)
  next
    case (Cons d ds)
    from Cons.IH [of "next_thinking t d"
        "s\<lparr>stdout := stdout s @ map render (delta_emissions model t c d)\<rparr>"]
    show ?thesis
      by (simp add: process_chunk_emits [OF Cons] Cons all_have_choices_def)
  qed
qed

lemma call_llm_emits:
  "call_llm api model messages upstream s =
     (if all_have_choices upstream
      then (Inr (),
            s\<lparr>requests := requests s @ [request_of api model messages],
              stdout := stdout s @ map render (bridge_emissions model False upstream)
                        @ [Terminate_chat]\<rparr>)
      else (Inl IndexError,
            s\<lparr>requests := requests s @ [request_of api model messages],
              stdout := stdout s @ map render (bridge_emissions model False upstream)\<rparr>))"
proof -
  let ?s1 = "s\<lparr>requests := requests s @ [request_of api model messages]\<rparr>"
  obtain b where "stream_loop model False upstream ?s1 =
     ((if all_have_choices upstream then Inr b else Inl IndexError),
      ?s1\<lparr>stdout := stdout ?s1 @ map render (bridge_emissions model False upstream)\<rparr>)"
    using stream_loop_emits by blast
  then show ?thesis
    by (simp add: call_llm_def io_defs request_of_def)
qed

lemma replay_append:
  "replay (xs @ ys) stack = (case replay xs stack of None \<Rightarrow> None | Some st \<Rightarrow> replay ys st)"
  by (induction xs stack rule: replay.induct) auto

lemma replay_delta:
  "replay (delta_emissions model t c d) (stack_of t) = Some (stack_of (next_thinking t d))"
  by (simp add: delta_emissions_def next_thinking_def stack_of_def replay_append
      split: option.splits)

lemma replay_bridge:
  "\<exists>t'. replay (bridge_emissions model t cs) (stack_of t) = Some (stack_of t')"
proof (induction cs arbitrary: t)
  case Nil
  then show ?case by auto
next
  case (Cons c cs)
  show ?case
  proof (cases "choices c")
    case Nil
    then show ?thesis by auto
  next
    case (Cons d ds)
    with Cons.IH [of "next_thinking t d"] show ?thesis
      by (simp add: replay_append replay_delta)
  qed
qed

lemma map_io_entries:
  "list_all (readable s) fs \<Longrightarrow> map_io opened_file_entry fs s = (Inr (entry_texts s fs), s)"
proof (induction fs)
  case Nil
  then show ?case by (simp add: entry_texts_def)
next
  case (Cons f fs)
  then have ih: "map_io opened_file_entry fs s = (Inr (entry_texts s fs), s)" by simp
  from Cons.prems obtain t where t: "files s (fs_path f) = Some t"
    by (auto simp: readable_def)
  then have "file_text s f = t" by (simp add: file_text_def)
  with ih t show ?case
    by (simp add: opened_file_entry_Some entry_texts_def)
qed

section \<open>The streaming bridge\<close>

text \<open>
  C1. A stream that ends while the bridge is still thinking: for the one-chunk stream
  carrying the reasoning text \<open>hm\<close>, \<open>call_llm\<close> prints the open tag, the text and
  the terminate event, and no close tag: the collapse block is left open.
\<close>

theorem reasoning_only_stream_left_open:
  "call_llm api model messages [reasoning_delta ''hm''] s =
     (Inr (),
      s\<lparr>requests := requests s @ [request_of api model messages],
        stdout := stdout s @ [Push_chat ''<collapse>'', Push_chat ''hm'', Terminate_chat]\<rparr>)"
  by (simp add: call_llm_def process_chunk_def io_defs reasoning_delta_def request_of_def)

text \<open>
  C2. For the deltas reasoning \<open>Let's \<close>, reasoning \<open>think\<close>, content \<open>Answer: \<close>,
  content \<open>42\<close>, usage with 10 prompt tokens, \<open>call_llm\<close> returns normally and prints
  exactly: the open collapse tag, the two reasoning texts, the close collapse tag, the
  two answer texts, the metadata line naming the token count 10 and the model, and the
  terminate event, in this order.
\<close>

theorem scenario_events:
  "call_llm api model messages
     [reasoning_delta ''Let's '', reasoning_delta ''think'', content_delta ''Answer: '',
      content_delta ''42'', usage_delta 10] s =
     (Inr (),
      s\<lparr>requests := requests s @ [request_of api model messages],
        stdout := stdout s @
          [Push_chat ''<collapse>'', Push_chat ''Let's '', Push_chat ''think'',
           Push_chat ''</collapse>'', Push_chat ''Answer: '', Push_chat ''42'',
           Push_chat (''\<newline><metadata> number of tokens used in prompt: 10 model: ''
                      @ model @ '' </metadata>\<newline>''),
           Terminate_chat]\<rparr>)"
  by (simp add: call_llm_def process_chunk_def io_defs reasoning_delta_def content_delta_def
      usage_delta_def usage_metadata_def str_int_def str_nat.simps request_of_def)

text \<open>
  C9. Two runs of \<open>call_llm\<close> on the same model name and the same chunk list, from
  any two snapshots, message lists and starting states, end the same way (both return,
  or both raise the same error) and print the same events after what had been printed
  before: the emitted sequence is a function of the chunk list.
\<close>

theorem emitted_events_deterministic:
  "fst (call_llm api1 model messages1 upstream s1) =
     fst (call_llm api2 model messages2 upstream s2)
   \<and> drop (length (stdout s1)) (stdout (snd (call_llm api1 model messages1 upstream s1))) =
     drop (length (stdout s2)) (stdout (snd (call_llm api2 model messages2 upstream s2)))"
proof -
  obtain r evs where
    "\<And>api messages s. call_llm api model messages upstream s =
       (r, s\<lparr>requests := requests s @ [request_of api model messages],
             stdout := stdout s @ evs\<rparr>)"
    using call_llm_out by blast
  then show ?thesis by simp
qed

text \<open>
  C3 (as amended). \<open>start_block\<close> prints the open tag of its block type and pushes
  the tag on the block stack; \<open>end_block\<close> pops the tag on top of the stack and prints
  the close tag of exactly that tag, and fails its assertion, printing nothing, when the
  stack is empty. The streaming bridge does not use the block stack, which \<open>call_llm\<close>
  leaves as it was, but its tags keep the same discipline: what \<open>call_llm\<close> prints
  is exactly the rendering of the emissions of the state machine (followed by the
  terminate event unless a chunk has no choice), and replayed on a block stack from the
  empty stack these emissions never close a tag that is not on top, and leave at most the
  one collapse tag open. Chunk by chunk: reasoning text met in the plain state prints the
  open collapse tag and then the text, reasoning text met while thinking prints the text
  only, answer text met while thinking prints the close collapse tag and then the text,
  and answer text met in the plain state prints the text only.
\<close>

theorem block_stack_discipline:
  "(map_of TAGS block_type = Some tag \<longrightarrow>
      start_block block_type s =
        (Inr (), s\<lparr>stdout := stdout s @ [Push_chat (''<'' @ tag @ ''>'')],
                   blocks := blocks s @ [tag]\<rparr>))
   \<and> (blocks s = bs @ [tag] \<longrightarrow>
      end_block s =
        (Inr (), s\<lparr>blocks := bs, stdout := stdout s @ [Push_chat (''</'' @ tag @ ''>'')]\<rparr>))
   \<and> (blocks s = [] \<longrightarrow> end_block s = (Inl AssertionError, s))
   \<and> blocks (snd (call_llm api model messages upstream s)) = blocks s
   \<and> call_llm api model messages upstream s =
       (if all_have_choices upstream
        then (Inr (),
              s\<lparr>requests := requests s @ [request_of api model messages],
                stdout := stdout s @ map render (bridge_emissions model False upstream)
                          @ [Terminate_chat]\<rparr>)
        else (Inl IndexError,
              s\<lparr>requests := requests s @ [request_of api model messages],
                stdout := stdout s @ map render (bridge_emissions model False upstream)\<rparr>))
   \<and> replay (bridge_emissions model False upstream) [] \<in> {Some [], Some [''collapse'']}
   \<and> (r \<noteq> [] \<longrightarrow>
        process_chunk model False (reasoning_delta r) s =
          (Inr True, s\<lparr>stdout := stdout s @ [Push_chat ''<collapse>'', Push_chat r]\<rparr>)
        \<and> process_chunk model True (reasoning_delta r) s =
          (Inr True, s\<lparr>stdout := stdout s @ [Push_chat r]\<rparr>)
        \<and> process_chunk model True (content_delta r) s =
          (Inr False, s\<lparr>stdout := stdout s @ [Push_chat ''</collapse>'', Push_chat r]\<rparr>)
        \<and> process_chunk model False (content_delta r) s =
          (Inr False, s\<lparr>stdout := stdout s @ [Push_chat r]\<rparr>))"
proof -
  have 1: "blocks (snd (call_llm api model messages upstream s)) = blocks s"
    by (simp add: call_llm_emits)
  obtain t' where "replay (bridge_emissions model False upstream) (stack_of False) =
      Some (stack_of t')"
    using replay_bridge by blast
  then have 2: "replay (bridge_emissions model False upstream) [] \<in> {Some [], Some [''collapse'']}"
    by (simp add: stack_of_def split: if_splits)
  have 3: "r \<noteq> [] \<longrightarrow>
        process_chunk model False (reasoning_delta r) s =
          (Inr True, s\<lparr>stdout := stdout s @ [Push_chat ''<collapse>'', Push_chat r]\<rparr>)
        \<and> process_chunk model True (reasoning_delta r) s =
          (Inr True, s\<lparr>stdout := stdout s @ [Push_chat r]\<rparr>)
        \<and> process_chunk model True (content_delta r) s =
          (Inr False, s\<lparr>stdout := stdout s @ [Push_chat ''</collapse>'', Push_chat r]\<rparr>)
        \<and> process_chunk model False (content_delta r) s =
          (Inr False, s\<lparr>stdout := stdout s @ [Push_chat r]\<rparr>)"
    by (simp add: process_chunk_def io_defs reasoning_delta_def content_delta_def)
  have 4: "(map_of TAGS block_type = Some tag \<longrightarrow>
      start_block block_type s =
        (Inr (), s\<lparr>stdout := stdout s @ [Push_chat (''<'' @ tag @ ''>'')],
                   blocks := blocks s @ [tag]\<rparr>))
   \<and> (blocks s = bs @ [tag] \<longrightarrow>
      end_block s =
        (Inr (), s\<lparr>blocks := bs, stdout := stdout s @ [Push_chat (''</'' @ tag @ ''>'')]\<rparr>))
   \<and> (blocks s = [] \<longrightarrow> end_block s = (Inl AssertionError, s))"
    by (simp add: start_block_def end_block_def io_defs)
  from 1 2 3 4 call_llm_emits [of api model messages upstream s] show ?thesis
    by blast
qed

theorem block_stack_discipline_witness:
  "start_block ''think'' example_state =
     (Inr (), example_state\<lparr>stdout := [Push_chat ''<collapse>''], blocks := [''collapse'']\<rparr>)
   \<and> end_block (example_state\<lparr>blocks := [''metadata'', ''collapse'']\<rparr>) =
     (Inr (), example_state\<lparr>blocks := [''metadata''], stdout := [Push_chat ''</collapse>'']\<rparr>)
   \<and> end_block example_state = (Inl AssertionError, example_state)
   \<and> call_llm example_api the_model [] [reasoning_delta ''hm'', content_delta ''ok''] example_state =
     (Inr (),
      example_state\<lparr>requests := [request_of example_api the_model []],
        stdout := [Push_chat ''<collapse>'', Push_chat ''hm'', Push_chat ''</collapse>'',
                   Push_chat ''ok'', Terminate_chat]\<rparr>)
   \<and> bridge_emissions the_model False [reasoning_delta ''hm'', content_delta ''ok''] =
       [Open_tag ''collapse'', Chat ''hm'', Close_tag ''collapse'', Chat ''ok'']
   \<and> process_chunk the_model True (content_delta ''ok'') example_state =
       (Inr False, example_state\<lparr>stdout := [Push_chat ''</collapse>'', Push_chat ''ok'']\<rparr>)"
proof -
  have e: "bridge_emissions the_model False [reasoning_delta ''hm'', content_delta ''ok''] =
       [Open_tag ''collapse'', Chat ''hm'', Close_tag ''collapse'', Chat ''ok'']"
    by (simp add: reasoning_delta_def content_delta_def delta_emissions_def next_thinking_def
        has_reasoning_def has_content_def text_of_def)
  have c: "all_have_choices [reasoning_delta ''hm'', content_delta ''ok'']"
    by (simp add: all_have_choices_def reasoning_delta_def content_delta_def)
  have b: "blocks example_state = []" "stdout example_state = []" "requests example_state = []"
    by (simp_all add: example_state_def)
  have t: "map_of TAGS ''think'' = Some ''collapse''" by (simp add: TAGS_def)
  from block_stack_discipline [where block_type = "''think''" and tag = "''collapse''"
      and s = example_state and api = example_api and model = the_model and messages = "[]"
      and upstream = "[reasoning_delta ''hm'', content_delta ''ok'']" and r = "''ok''"]
    block_stack_discipline [where s = "example_state\<lparr>blocks := [''metadata'', ''collapse'']\<rparr>"
      and bs = "[''metadata'']" and tag = "''collapse''"]
  show ?thesis
    by (simp add: e c b t del: bridge_emissions.simps)
qed

text \<open>
  C3 as stated fails: from an empty block stack, the chunk that takes the bridge from
  plain to thinking prints the open collapse tag and the stack stays empty; and a chunk
  of answer text met while thinking prints the close collapse tag although no tag is on
  the stack.
\<close>

theorem bridge_bypasses_block_stack:
  "blocks example_state = []
   \<and> stdout (snd (process_chunk the_model False (reasoning_delta ''hm'') example_state)) =
       [Push_chat ''<collapse>'', Push_chat ''hm'']
   \<and> blocks (snd (process_chunk the_model False (reasoning_delta ''hm'') example_state)) = []
   \<and> stdout (snd (process_chunk the_model True (content_delta ''ok'') example_state)) =
       [Push_chat ''</collapse>'', Push_chat ''ok'']"
  by (simp add: process_chunk_def io_defs reasoning_delta_def content_delta_def example_state_def)

section \<open>Message construction\<close>

text \<open>
  C4 (as amended). When \<open>build_context\<close> has returned the context and the terminal
  snapshot is present, \<open>extension\<close> sends one request, whose message list is
  exactly: system message, prior chat history in order, user message with the raw
  prompt, if the stripped prompt starts with \<open>/\<close>; and exactly: system message,
  user message with the context, prior chat history in order, user message with the
  raw prompt, otherwise. The system prompt is never the context, and in the first
  branch neither is the raw prompt: there the context can occur in the list only as
  the content of a message of the chat history.
\<close>

theorem messages_sent_to_model:
  "build_context api s = (Inr ctx, s1) \<Longrightarrow> terminal_snapshot api = Some snap \<Longrightarrow>
   requests (snd (extension api upstream s)) =
     requests s @
       [request_of api the_model
          (if startswith (strip (prompt api)) ''/''
           then [system_message the_model] @ map to_dict (chat_history api)
                @ [user_message (prompt api)]
           else [system_message the_model, user_message ctx] @ map to_dict (chat_history api)
                @ [user_message (prompt api)])]
   \<and> get_system_prompt the_model \<noteq> ctx
   \<and> (startswith (strip (prompt api)) ''/'' \<longrightarrow> prompt api \<noteq> ctx)"
proof -
  assume b: "build_context api s = (Inr ctx, s1)" and t: "terminal_snapshot api = Some snap"
  obtain r evs where c:
    "\<And>api messages s. call_llm api the_model messages upstream s =
       (r, s\<lparr>requests := requests s @ [request_of api the_model messages],
             stdout := stdout s @ evs\<rparr>)"
    using call_llm_out by blast
  have 1: "requests (snd (extension api upstream s)) =
     requests s @ [request_of api the_model (build_messages api the_model ctx)]"
    by (simp add: extension_after_context [OF b t] c build_context_requests [OF b])
  obtain rest where ctx: "ctx = CHR ''#'' # rest"
    using context_head [OF b] by blast
  obtain rest' where "get_system_prompt the_model = CHR ''Y'' # rest'"
    using get_system_prompt_head by blast
  with ctx have 2: "get_system_prompt the_model \<noteq> ctx" by simp
  have 3: "prompt api \<noteq> ctx" if "startswith (strip (prompt api)) ''/''"
  proof
    assume "prompt api = ctx"
    with that have "startswith (strip ctx) ''/''" by simp
    then show False
      by (simp add: ctx strip_Cons isspace_hash startswith_def)
  qed
  from 1 2 3 show ?thesis
    by (simp add: build_messages_def)
qed

theorem messages_sent_to_model_witness:
  "requests (snd (extension example_api [] example_state)) =
     [request_of example_api the_model [system_message the_model, user_message ''/go'']]
   \<and> requests (snd (extension (example_api\<lparr>prompt := ''go'', opened_files := [], selection := None\<rparr>) [] example_state)) =
     [request_of (example_api\<lparr>prompt := ''go'', opened_files := [], selection := None\<rparr>) the_model
        [system_message the_model, user_message (current_file_section example_api), user_message ''go'']]"
proof -
  obtain ctx s1 where b: "build_context example_api example_state = (Inr ctx, s1)"
    using build_context_readable [OF example_readable] by blast
  have t: "terminal_snapshot example_api = Some []" by (simp add: example_api_def)
  have e: "startswith (strip (prompt example_api)) ''/''"
    by (simp add: example_api_def strip_def startswith_def isspace_def)
  let ?api = "example_api\<lparr>prompt := ''go'', opened_files := [], selection := None\<rparr>"
  have b': "build_context ?api example_state =
     (Inr (current_file_section example_api),
      example_state\<lparr>stdout := [Push_chat (opened_files_metadata []),
                                 Push_chat (current_file_metadata ''a.py'')]\<rparr>)"
    by (simp add: build_context_def io_defs example_api_def example_state_def example_files
        current_file_section_def)
  have t': "terminal_snapshot ?api = Some []" by (simp add: example_api_def)
  have e': "\<not> startswith (strip (prompt ?api)) ''/''"
    by (simp add: strip_def startswith_def isspace_def)
  from messages_sent_to_model [OF b t, of "[]"] messages_sent_to_model [OF b' t', of "[]"] e e'
  show ?thesis
    by (simp add: example_api_def example_state_def)
qed

text \<open>
  C4 as stated fails: with the prompt \<open>/go\<close> and a chat history whose one message
  holds the context of the current file, the message list sent to the model contains
  the assembled context string.
\<close>

theorem history_may_carry_context:
  "startswith (strip (prompt history_api)) ''/''
   \<and> fst (build_context history_api example_state) = Inr (current_file_section history_api)
   \<and> map req_messages (requests (snd (extension history_api [] example_state))) =
       [[system_message the_model, user_message (current_file_section history_api),
         user_message (prompt history_api)]]"
proof -
  have e: "startswith (strip (prompt history_api)) ''/''"
    by (simp add: history_api_def example_api_def strip_def startswith_def isspace_def)
  have b: "build_context history_api example_state =
     (Inr (current_file_section history_api),
      example_state\<lparr>stdout := [Push_chat (opened_files_metadata []),
                                 Push_chat (current_file_metadata ''a.py'')]\<rparr>)"
    by (simp add: build_context_def io_defs history_api_def example_api_def example_state_def
        example_files current_file_section_def)
  have t: "terminal_snapshot history_api = Some []"
    by (simp add: history_api_def example_api_def)
  have c: "current_file_section history_api = current_file_section example_api"
    by (simp add: history_api_def current_file_section_def)
  have "extension history_api [] example_state =
     call_llm history_api the_model (build_messages history_api the_model (current_file_section history_api)) []
       (example_state\<lparr>stdout := [Push_chat (opened_files_metadata []),
                                 Push_chat (current_file_metadata ''a.py'')] @
          [Log (''messages '' @ str_nat (length (build_messages history_api the_model (current_file_section history_api)))),
           Log (''prompt '' @ prompt history_api),
           Log (''## Terminal '' @ join ''\<newline>'' [])]\<rparr>)"
    using extension_after_context [OF b t, of "[]"] by simp
  then have "map req_messages (requests (snd (extension history_api [] example_state))) =
     [build_messages history_api the_model (current_file_section history_api)]"
    by (simp add: call_llm_def io_defs example_state_def)
  moreover have "build_messages history_api the_model (current_file_section history_api) =
     [system_message the_model, user_message (current_file_section history_api),
         user_message (prompt history_api)]"
    using e by (simp add: build_messages_def c) (simp add: history_api_def to_dict_def user_message_def)
  ultimately show ?thesis using e b by simp
qed

section \<open>Context assembly\<close>

text \<open>
  C5. When every opened file is readable, \<open>build_context\<close> returns the sections
  joined by blank lines: the section of the other relevant files when there is an opened
  file, the section of the current file, and then the Selection section, holding the
  selection as it was given, if and only if the selection is present and non-empty after
  stripping; it prints the two metadata events and nothing else. So an absent, empty or
  whitespace-only selection leaves no section, no event and no placeholder. When an
  opened file is not readable no context is returned.
\<close>

theorem selection_section_iff:
  "(list_all (readable s) (opened_files api) \<longrightarrow>
      build_context api s =
        (Inr (join ''\<newline>\<newline>''
               ((if opened_files api \<noteq> []
                 then [format_section ''Other relevant files''
                         (join ''\<newline>\<newline>'' (entry_texts s (opened_files api)))]
                 else [])
                @ [current_file_section api]
                @ (if has_selection api then [selection_section (selection_text api)] else []))),
         s\<lparr>stdout := stdout s @
            [Push_chat (opened_files_metadata (map path (opened_files api))),
             Push_chat (current_file_metadata (path (current_file api)))]\<rparr>))
   \<and> (\<not> list_all (readable s) (opened_files api) \<longrightarrow> (\<exists>e. build_context api s = (Inl e, s)))"
proof (intro conjI impI)
  assume r: "list_all (readable s) (opened_files api)"
  have j: "join ''\<newline>\<newline>'' (xs @ [y]) = join ''\<newline>\<newline>'' xs @ ''\<newline>\<newline>'' @ y" if "xs \<noteq> []" for xs y
    using that by (induction "''\<newline>\<newline>''" xs rule: join.induct) auto
  have "join ''\<newline>\<newline>'' (sections_before_selection api (entry_texts s (opened_files api))
          @ (if has_selection api then [selection_section (selection_text api)] else [])) =
        join ''\<newline>\<newline>'' (sections_before_selection api (entry_texts s (opened_files api)))
          @ (case selection api of
                None \<Rightarrow> []
              | Some sel \<Rightarrow>
                  if strip sel \<noteq> [] then ''\<newline>\<newline>'' @ selection_section sel else [])"
    by (simp add: has_selection_def selection_text_def j sections_before_selection_def
        split: option.splits)
  with build_context_ok [OF map_io_entries [OF r]]
  show "build_context api s =
        (Inr (join ''\<newline>\<newline>''
               ((if opened_files api \<noteq> []
                 then [format_section ''Other relevant files''
                         (join ''\<newline>\<newline>'' (entry_texts s (opened_files api)))]
                 else [])
                @ [current_file_section api]
                @ (if has_selection api then [selection_section (selection_text api)] else []))),
         s\<lparr>stdout := stdout s @
            [Push_chat (opened_files_metadata (map path (opened_files api))),
             Push_chat (current_file_metadata (path (current_file api)))]\<rparr>)"
    by (simp add: sections_before_selection_def)
next
  assume "\<not> list_all (readable s) (opened_files api)"
  then show "\<exists>e. build_context api s = (Inl e, s)"
    using build_context_cases [of s api] by blast
qed

theorem selection_section_iff_witness:
  "build_context example_api example_state =
     (Inr (''## Other relevant files\<newline>\<newline>Path: `b.py`\<newline>\<newline>```\<newline>y = 2\<newline>```''
           @ ''\<newline>\<newline>## Current File\<newline>\<newline>Here is the file I'm looking at (`a.py`):''
           @ ''\<newline>\<newline>```\<newline>x = 1\<newline>```''
           @ ''\<newline>\<newline>## Selection\<newline>\<newline>This is the code snippet that I'm referring to''
           @ ''\<newline>\<newline>```\<newline>x\<newline>```''),
      example_state\<lparr>stdout :=
        [Push_chat ''\<newline><metadata> Opened Files: ['b.py'] </metadata>\<newline>'',
         Push_chat ''\<newline><metadata> Current File: a.py </metadata>\<newline>'']\<rparr>)
   \<and> build_context (example_api\<lparr>selection := Some '' ''\<rparr>) example_state =
     (Inr (''## Other relevant files\<newline>\<newline>Path: `b.py`\<newline>\<newline>```\<newline>y = 2\<newline>```''
           @ ''\<newline>\<newline>## Current File\<newline>\<newline>Here is the file I'm looking at (`a.py`):''
           @ ''\<newline>\<newline>```\<newline>x = 1\<newline>```''),
      example_state\<lparr>stdout :=
        [Push_chat ''\<newline><metadata> Opened Files: ['b.py'] </metadata>\<newline>'',
         Push_chat ''\<newline><metadata> Current File: a.py </metadata>\<newline>'']\<rparr>)
   \<and> (\<exists>e. build_context example_api deleted_state = (Inl e, deleted_state))"
proof -
  let ?blank = "example_api\<lparr>selection := Some '' ''\<rparr>"
  have 1: "has_selection example_api"
    by (simp add: has_selection_def example_api_def strip_def isspace_def)
  have 2: "\<not> has_selection ?blank"
    by (simp add: has_selection_def strip_def isspace_def)
  have 3: "list_all (readable example_state) (opened_files ?blank)"
    using example_readable by simp
  have 4: "\<not> list_all (readable deleted_state) (opened_files example_api)"
    by (simp add: readable_def deleted_state_def example_api_def example_state_def example_files)
  have 5: "opened_files_metadata (map path (opened_files example_api)) =
      ''\<newline><metadata> Opened Files: ['b.py'] </metadata>\<newline>''"
    by (simp add: opened_files_metadata_def repr_list_def repr_str_def repr_quote_def
        repr_char_def isprintable_def example_api_def example_files)
  have 6: "current_file_metadata (path (current_file example_api)) =
      ''\<newline><metadata> Current File: a.py </metadata>\<newline>''"
    by (simp add: current_file_metadata_def example_api_def example_files)
  have 7: "entry_texts example_state (opened_files example_api) =
      [''Path: `b.py`\<newline>\<newline>```\<newline>y = 2\<newline>```'']"
    by (simp add: entry_texts_def file_text_def format_code_block_def example_api_def
        example_state_def example_files)
  have 8: "current_file_section example_api =
      ''## Current File\<newline>\<newline>Here is the file I'm looking at (`a.py`):\<newline>\<newline>```\<newline>x = 1\<newline>```''"
    by (simp add: current_file_section_def format_section_def format_code_block_def
        example_api_def example_files)
  have 9: "selection_section (selection_text example_api) =
      ''## Selection\<newline>\<newline>This is the code snippet that I'm referring to\<newline>\<newline>```\<newline>x\<newline>```''"
    by (simp add: selection_section_def selection_text_def format_section_def
        format_code_block_def example_api_def)
  have 10: "opened_files example_api \<noteq> []" by (simp add: example_api_def)
  have 11: "current_file_section ?blank = current_file_section example_api"
    by (simp add: current_file_section_def)
  have 12: "stdout example_state = []" by (simp add: example_state_def)
  from selection_section_iff [of example_state example_api]
    selection_section_iff [of example_state ?blank]
    selection_section_iff [of deleted_state example_api]
    example_readable 1 2 3 4
  show ?thesis
    by (simp add: 5 6 7 8 9 10 11 12 format_section_def)
qed

text \<open>
  C6 (as amended). When every opened file is readable, \<open>build_context\<close> returns and
  prints exactly two events: the metadata line listing the paths of the opened files,
  then the metadata line naming the current file; neither depends on the selection or
  on the prompt. With no opened file the first line lists the empty list \<open>[]\<close>.
\<close>

theorem metadata_events_emitted:
  "(list_all (readable s) (opened_files api) \<longrightarrow>
      (\<exists>ctx. build_context api s =
         (Inr ctx,
          s\<lparr>stdout := stdout s @
             [Push_chat (opened_files_metadata (map path (opened_files api))),
              Push_chat (current_file_metadata (path (current_file api)))]\<rparr>)))
   \<and> opened_files_metadata [] = ''\<newline><metadata> Opened Files: [] </metadata>\<newline>''"
proof -
  have "opened_files_metadata [] = ''\<newline><metadata> Opened Files: [] </metadata>\<newline>''"
    by (simp add: opened_files_metadata_def repr_list_def)
  then show ?thesis using build_context_readable by blast
qed

theorem metadata_events_emitted_witness:
  "stdout (snd (build_context example_api example_state)) =
     [Push_chat ''\<newline><metadata> Opened Files: ['b.py'] </metadata>\<newline>'',
      Push_chat ''\<newline><metadata> Current File: a.py </metadata>\<newline>'']
   \<and> stdout (snd (build_context (example_api\<lparr>opened_files := []\<rparr>) example_state)) =
     [Push_chat ''\<newline><metadata> Opened Files: [] </metadata>\<newline>'',
      Push_chat ''\<newline><metadata> Current File: a.py </metadata>\<newline>'']"
proof -
  have 1: "list_all (readable example_state) (opened_files (example_api\<lparr>opened_files := []\<rparr>))"
    by simp
  have 2: "opened_files_metadata (map path (opened_files example_api)) =
      ''\<newline><metadata> Opened Files: ['b.py'] </metadata>\<newline>''"
    by (simp add: opened_files_metadata_def repr_list_def repr_str_def repr_quote_def
        repr_char_def isprintable_def example_api_def example_files)
  have 3: "current_file_metadata (path (current_file example_api)) =
      ''\<newline><metadata> Current File: a.py </metadata>\<newline>''"
    by (simp add: current_file_metadata_def example_api_def example_files)
  have 4: "stdout example_state = []" by (simp add: example_state_def)
  from metadata_events_emitted [of example_state example_api]
    metadata_events_emitted [of example_state "example_api\<lparr>opened_files := []\<rparr>"]
    example_readable 1
  show ?thesis
    by (auto simp: 2 3 4)
qed

text \<open>
  C6 as stated fails: with the current file in place and the opened file \<open>b.py\<close>
  deleted, \<open>build_context\<close> raises at the read and has printed no metadata event.
\<close>

theorem unreadable_opened_file_no_metadata:
  "readable deleted_state (current_file example_api)
   \<and> stdout deleted_state = []
   \<and> build_context example_api deleted_state = (Inl (OSError ''/r/b.py''), deleted_state)"
  by (simp add: build_context_def io_defs opened_file_entry_def get_content_def example_api_def
      example_state_def deleted_state_def example_files readable_def)

section \<open>Loading the payload\<close>

text \<open>
  C7. When a payload lacks one of the twelve required keys, \<open>load\<close> raises the key
  error that names the first lacking key in its lookup order, a key the payload lacks, and
  returns the state as it was: nothing has been printed and no request has been sent.
\<close>

theorem missing_field_key_error:
  "missing_required kw \<noteq> [] \<Longrightarrow>
   load kw s = (Inl (KeyError (hd (missing_required kw))), s)
   \<and> hd (missing_required kw) \<in> set (missing_required kw)"
  using load_missing_key by simp

theorem missing_field_key_error_witness:
  "load (example_payload\<lparr>kw_prompt := None, kw_repo := None\<rparr>) example_state =
     (Inl (KeyError ''prompt''), example_state)"
  using missing_field_key_error [of "example_payload\<lparr>kw_prompt := None, kw_repo := None\<rparr>" example_state]
  by (simp add: missing_required_def absent_def example_payload_def)

section \<open>Unreadable files\<close>

text \<open>
  C8 (as amended). When an opened file cannot be read, \<open>build_context\<close> raises the
  read error of the first such file, having printed nothing, and the error ends
  \<open>extension\<close> as well: it is fatal to the assembler and to the invocation. When
  every opened file can be read \<open>build_context\<close> returns a context, whether or not the
  current file can be read. Storage is read at the paths of the opened files only: two
  file systems that agree there give the same result and the same printed events. So the
  current file failing to resolve matters only when it is itself one of the opened files.
\<close>

theorem unreadable_opened_file_aborts:
  "(\<not> list_all (readable s) (opened_files api) \<longrightarrow>
      (\<exists>f \<in> set (opened_files api). \<not> readable s f
         \<and> build_context api s = (Inl (OSError (fs_path f)), s)
         \<and> extension api upstream s = (Inl (OSError (fs_path f)), s)))
   \<and> (list_all (readable s) (opened_files api) \<longrightarrow>
        (\<exists>ctx s'. build_context api s = (Inr ctx, s')))
   \<and> ((\<forall>f \<in> set (opened_files api). g (fs_path f) = files s (fs_path f)) \<longrightarrow>
        fst (build_context api (s\<lparr>files := g\<rparr>)) = fst (build_context api s)
        \<and> stdout (snd (build_context api (s\<lparr>files := g\<rparr>))) =
          stdout (snd (build_context api s)))"
proof (intro conjI impI)
  assume "\<not> list_all (readable s) (opened_files api)"
  then obtain f :: File where "f \<in> set (opened_files api)" "\<not> readable s f"
    "build_context api s = (Inl (OSError (fs_path f)), s)"
    using build_context_cases [of s api] by blast
  then show "\<exists>f \<in> set (opened_files api). \<not> readable s f
         \<and> build_context api s = (Inl (OSError (fs_path f)), s)
         \<and> extension api upstream s = (Inl (OSError (fs_path f)), s)"
    using extension_context_fail by blast
next
  assume "list_all (readable s) (opened_files api)"
  from build_context_readable [OF this]
  show "\<exists>ctx s'. build_context api s = (Inr ctx, s')" by blast
next
  assume a: "\<forall>f \<in> set (opened_files api). g (fs_path f) = files s (fs_path f)"
  from build_context_files [OF a]
  show "fst (build_context api (s\<lparr>files := g\<rparr>)) = fst (build_context api s)"
    and "stdout (snd (build_context api (s\<lparr>files := g\<rparr>))) =
          stdout (snd (build_context api s))"
    by blast+
qed

theorem unreadable_opened_file_aborts_witness:
  "build_context example_api deleted_state = (Inl (OSError ''/r/b.py''), deleted_state)
   \<and> extension example_api [] deleted_state = (Inl (OSError ''/r/b.py''), deleted_state)
   \<and> \<not> readable current_deleted_state (current_file example_api)
   \<and> (\<exists>ctx s'. build_context example_api current_deleted_state = (Inr ctx, s'))
   \<and> fst (build_context example_api current_deleted_state) =
       fst (build_context example_api example_state)"
proof -
  have 1: "\<not> list_all (readable deleted_state) (opened_files example_api)"
    by (simp add: readable_def deleted_state_def example_api_def example_state_def example_files)
  have 2: "list_all (readable current_deleted_state) (opened_files example_api)"
    by (simp add: readable_def current_deleted_state_def example_api_def example_state_def
        example_files)
  have 3: "\<forall>f \<in> set (opened_files example_api).
      files current_deleted_state (fs_path f) = files example_state (fs_path f)"
    by (simp add: current_deleted_state_def example_api_def example_state_def example_files)
  have 4: "example_state\<lparr>files := files current_deleted_state\<rparr> = current_deleted_state"
    by (simp add: current_deleted_state_def)
  have 5: "opened_files example_api = [new_File ''b.py'' ''/r'']"
    by (simp add: example_api_def)
  have 6: "\<not> readable current_deleted_state (current_file example_api)"
    by (simp add: readable_def current_deleted_state_def example_api_def example_state_def
        example_files)
  from unreadable_opened_file_aborts [where s = deleted_state and api = example_api
      and upstream = "[]"]
    unreadable_opened_file_aborts [where s = current_deleted_state and api = example_api]
    unreadable_opened_file_aborts [where s = example_state and api = example_api
      and g = "files current_deleted_state"]
    1 2 3 6
  show ?thesis
    by (simp add: 4 5 example_files)
qed

text \<open>
  C8 as stated fails: with the opened file \<open>b.py\<close> deleted, the read error ends
  \<open>build_context\<close> and \<open>extension\<close>; with the current file \<open>a.py\<close>
  deleted instead, \<open>extension\<close> returns normally.
\<close>

theorem opened_file_fatal_current_file_not:
  "build_context example_api deleted_state = (Inl (OSError ''/r/b.py''), deleted_state)
   \<and> extension example_api [] deleted_state = (Inl (OSError ''/r/b.py''), deleted_state)
   \<and> \<not> readable current_deleted_state (current_file example_api)
   \<and> fst (extension example_api [] current_deleted_state) = Inr ()"
proof -
  have 1: "build_context example_api deleted_state = (Inl (OSError ''/r/b.py''), deleted_state)"
    by (simp add: build_context_def io_defs opened_file_entry_def get_content_def example_api_def
      example_state_def deleted_state_def example_files)
  have 2: "\<not> readable current_deleted_state (current_file example_api)"
    by (simp add: readable_def current_deleted_state_def example_api_def example_state_def example_files)
  have "list_all (readable current_deleted_state) (opened_files example_api)"
    by (simp add: readable_def current_deleted_state_def example_api_def example_state_def example_files)
  then obtain ctx s1 where b: "build_context example_api current_deleted_state = (Inr ctx, s1)"
    using build_context_readable by blast
  have t: "terminal_snapshot example_api = Some []" by (simp add: example_api_def)
  have 3: "fst (extension example_api [] current_deleted_state) = Inr ()"
    by (simp add: extension_after_context [OF b t] call_llm_def io_defs)
  from 1 2 3 extension_context_fail [OF 1] show ?thesis by simp
qed

section \<open>The absent terminal snapshot\<close>

text \<open>
  C10 (as amended). When a payload loads, its \<open>terminal_snapshot\<close> key is absent (or
  bound to \<open>None\<close>) and every opened file is readable, \<open>extension\<close> raises a
  type error at the join of the terminal snapshot: it has then printed the two metadata
  events of the context and the log events of the message count and of the prompt, and
  nothing else, and it has sent no request.
\<close>

theorem absent_terminal_snapshot_type_error:
  "load kw s0 = (Inr api, s) \<Longrightarrow> get_or_none (kw_terminal_snapshot kw) = None \<Longrightarrow>
   list_all (readable s) (opened_files api) \<Longrightarrow>
   \<exists>ctx. fst (build_context api s) = Inr ctx
     \<and> extension api upstream s =
         (Inl TypeError,
          s\<lparr>stdout := stdout s @
             [Push_chat (opened_files_metadata (map path (opened_files api))),
              Push_chat (current_file_metadata (path (current_file api))),
              Log (''messages '' @ str_nat (length (build_messages api the_model ctx))),
              Log (''prompt '' @ prompt api)]\<rparr>)"
proof -
  assume l: "load kw s0 = (Inr api, s)" and k: "get_or_none (kw_terminal_snapshot kw) = None"
    and r: "list_all (readable s) (opened_files api)"
  from load_terminal_snapshot [OF l] k have t: "terminal_snapshot api = None"
    by simp
  from build_context_readable [OF r] obtain ctx where
    b: "build_context api s =
      (Inr ctx,
       s\<lparr>stdout := stdout s @ [Push_chat (opened_files_metadata (map path (opened_files api))),
                              Push_chat (current_file_metadata (path (current_file api)))]\<rparr>)"
    by blast
  then have "extension api upstream s =
         (Inl TypeError,
          s\<lparr>stdout := stdout s @
             [Push_chat (opened_files_metadata (map path (opened_files api))),
              Push_chat (current_file_metadata (path (current_file api))),
              Log (''messages '' @ str_nat (length (build_messages api the_model ctx))),
              Log (''prompt '' @ prompt api)]\<rparr>)"
    by (simp add: extension_def io_defs t)
  with b show ?thesis by simp
qed

theorem absent_terminal_snapshot_type_error_witness:
  "fst (extension (example_api\<lparr>terminal_snapshot := None\<rparr>) [] example_state) = Inl TypeError
   \<and> requests (snd (extension (example_api\<lparr>terminal_snapshot := None\<rparr>) [] example_state)) = []
   \<and> length (stdout (snd (extension (example_api\<lparr>terminal_snapshot := None\<rparr>) [] example_state))) = 4"
proof -
  have s: "example_state\<lparr>blocks := []\<rparr> = example_state"
    by (simp add: example_state_def)
  have l: "load example_payload example_state =
      (Inr (example_api\<lparr>terminal_snapshot := None\<rparr>), example_state)"
    using load_example [of example_state] by (simp add: s)
  have k: "get_or_none (kw_terminal_snapshot example_payload) = None"
    by (simp add: example_payload_def get_or_none_def)
  have r: "list_all (readable example_state) (opened_files (example_api\<lparr>terminal_snapshot := None\<rparr>))"
    using example_readable by simp
  from absent_terminal_snapshot_type_error [OF l k r, of "[]"] show ?thesis
    by (auto simp: example_state_def)
qed

text \<open>
  C10 as stated fails: the example payload has no \<open>terminal_snapshot\<close> key, and with
  its opened file \<open>b.py\<close> deleted \<open>extension\<close> raises the read error in
  \<open>build_context\<close>, not a type error, before any event is printed.
\<close>

theorem read_error_precedes_type_error:
  "kw_terminal_snapshot example_payload = None
   \<and> load example_payload deleted_state =
       (Inr (example_api\<lparr>terminal_snapshot := None\<rparr>), deleted_state)
   \<and> extension (example_api\<lparr>terminal_snapshot := None\<rparr>) [] deleted_state =
       (Inl (OSError ''/r/b.py''), deleted_state)"
proof -
  have s: "deleted_state\<lparr>blocks := []\<rparr> = deleted_state"
    by (simp add: deleted_state_def example_state_def)
  have l: "load example_payload deleted_state =
      (Inr (example_api\<lparr>terminal_snapshot := None\<rparr>), deleted_state)"
    using load_example [of deleted_state] by (simp add: s)
  have b: "build_context (example_api\<lparr>terminal_snapshot := None\<rparr>) deleted_state =
      (Inl (OSError ''/r/b.py''), deleted_state)"
    by (simp add: build_context_def io_defs opened_file_entry_def get_content_def example_api_def
      example_state_def deleted_state_def example_files)
  from l extension_context_fail [OF b] show ?thesis
    by (simp add: example_payload_def)
qed

end
